theory Spec2Isabelle
  imports Main "HOL-Library.Word"
begin

section \<open>Content creation (src/core/content_service/src/crud/create.ts)\<close>

text \<open>
  The module exports one asynchronous function,
  \<^verbatim>\<open>create(addon, type, content, returnError?)\<close>, that builds a content record for
  an addon, links it to its owner in the user store and inserts it into the content
  collection. Its body is the executor of a promise; the model below follows the
  executor statement by statement. The collaborators that the file imports (the bson
  \<^verbatim>\<open>ObjectId\<close>, \<^verbatim>\<open>user.get\<close>, \<^verbatim>\<open>user.update\<close> and the collection's
  \<^verbatim>\<open>insertOne\<close>) answer as an environment dictates, and every call made to
  them is recorded in order.
\<close>

subsection \<open>Strings\<close>

text \<open>
  A character stands for the code unit of its number, so a string here is a JavaScript
  string of code units below 256. \<^verbatim>\<open>String.prototype.toLowerCase\<close> on these: the
  capital letters are A to Z (65 to 90) and, beyond ASCII, 192 to 222 without the
  multiplication sign 215; each is 32 below its small letter. Every other code unit
  below 256 is left as it is.
\<close>

definition lower_char :: "char \<Rightarrow> char" where
  "lower_char c =
     (let n = (of_char c :: nat)
      in if (65 \<le> n \<and> n \<le> 90) \<or> (192 \<le> n \<and> n \<le> 222 \<and> n \<noteq> 215)
         then char_of (n + 32) else c)"

definition toLowerCase :: "string \<Rightarrow> string" where
  "toLowerCase s = map lower_char s"

subsection \<open>ObjectId\<close>

text \<open>
  An ObjectId is a buffer of twelve bytes. Identifiers reach \<^verbatim>\<open>create\<close> as strings.
  On a string of length 12, \<^verbatim>\<open>new ObjectId(s)\<close> takes the UTF-8 bytes of the string
  and throws a \<^verbatim>\<open>BSONTypeError\<close> unless they are twelve, that is, unless every
  character is ASCII (a code unit from 128 on takes two bytes). On a string of length
  24 it reads twenty-four hexadecimal digits, and it throws on every other string.
  \<^verbatim>\<open>ObjectId.isValid(s)\<close> tries the constructor: it is true when the constructor
  does not throw.
\<close>

type_synonym byte = "8 word"

type_synonym ObjectId = "byte list"

definition hex_value :: "char \<Rightarrow> nat option" where
  "hex_value c =
     (let n = (of_char c :: nat)
      in if 48 \<le> n \<and> n \<le> 57 then Some (n - 48)
         else if 97 \<le> n \<and> n \<le> 102 then Some (n - 87)
         else if 65 \<le> n \<and> n \<le> 70 then Some (n - 55)
         else None)"

fun hex_bytes :: "string \<Rightarrow> byte list option" where
  "hex_bytes [] = Some []"
| "hex_bytes [c] = None"
| "hex_bytes (h # l # cs) =
     (case hex_value h of
        None \<Rightarrow> None
      | Some a \<Rightarrow>
          (case hex_value l of
             None \<Rightarrow> None
           | Some b \<Rightarrow>
               (case hex_bytes cs of
                  None \<Rightarrow> None
                | Some bs \<Rightarrow> Some (of_nat (16 * a + b) # bs))))"

text \<open>\<^verbatim>\<open>new ObjectId(s)\<close>; \<open>None\<close> is the thrown \<^verbatim>\<open>BSONTypeError\<close>.\<close>

definition ObjectId_new :: "string \<Rightarrow> ObjectId option" where
  "ObjectId_new s =
     (if length s = 12 then
        (if list_all (\<lambda>c. (of_char c :: nat) < 128) s then Some (map of_char s) else None)
      else if length s = 24 then hex_bytes s
      else None)"

definition ObjectId_isValid :: "string \<Rightarrow> bool" where
  "ObjectId_isValid s \<longleftrightarrow> ObjectId_new s \<noteq> None"

subsection \<open>Interfaces\<close>

text \<open>
  \<^verbatim>\<open>AddonInterface\<close>: the fields \<^verbatim>\<open>name\<close>, \<^verbatim>\<open>id\<close> and \<^verbatim>\<open>types\<close> that
  \<^verbatim>\<open>create\<close> reads.
\<close>

record AddonInterface =
  addon_name :: string
  addon_ident :: string
  addon_types :: "string list"

text \<open>The argument \<^verbatim>\<open>content: { content: any, owner?: ObjectId }\<close>; an owner that is
  \<^verbatim>\<open>undefined\<close> is \<open>None\<close>.\<close>

record 'c payload =
  content :: 'c
  owner :: "string option"

record 'c HistoryEntry =
  h_content :: 'c
  h_owner :: ObjectId
  h_date :: nat
  h_reason :: string

text \<open>
  \<^verbatim>\<open>ContentInterface\<close>, the stored document: \<^verbatim>\<open>_id\<close>, \<^verbatim>\<open>addon_id\<close>,
  \<^verbatim>\<open>type\<close>, \<^verbatim>\<open>owner?\<close>, \<^verbatim>\<open>history\<close>, \<^verbatim>\<open>content\<close>.
\<close>

record 'c ContentInterface =
  rec_id :: ObjectId
  addon_id :: ObjectId
  rec_type :: string
  rec_owner :: "ObjectId option"
  history :: "'c HistoryEntry list"
  rec_content :: 'c

text \<open>The members of \<^verbatim>\<open>locals.KEYS\<close> that \<^verbatim>\<open>create\<close> names.\<close>

datatype local_key = INVALID_TYPE | INVALID_ID | DB_ERROR

text \<open>
  \<^verbatim>\<open>ErrorInterface\<close>: \<^verbatim>\<open>code\<close>, \<^verbatim>\<open>local_key\<close>, \<^verbatim>\<open>where\<close>,
  \<^verbatim>\<open>message\<close>. A property that an object literal leaves out is \<open>None\<close>.
\<close>

record ErrorInterface =
  code :: "int option"
  local_key :: "local_key option"
  where_in :: "string option"
  message :: "string option"

text \<open>A failure value: the boolean \<^verbatim>\<open>false\<close>, or an error object.\<close>

datatype failure = JFalse | JError ErrorInterface

datatype 'c jsval = Failure failure | Content "'c ContentInterface"

datatype exn = BSONTypeError | Error "string option"

text \<open>
  What becomes of the promise that \<^verbatim>\<open>create\<close> returns: resolved with a value,
  rejected with a failure, or never settled because the executor threw (the executor is
  an \<^verbatim>\<open>async\<close> function, so the exception rejects the executor's own promise, which
  nobody holds).
\<close>

datatype 'c outcome = Resolved "'c jsval" | Rejected failure | Thrown exn

subsection \<open>Collaborators\<close>

text \<open>
  \<^verbatim>\<open>user_data\<close> is typed \<^verbatim>\<open>any\<close>. \<^verbatim>\<open>create\<close> compares it with \<^verbatim>\<open>false\<close> and
  reads three properties of it: \<^verbatim>\<open>message\<close>, \<^verbatim>\<open>[0]\<close> and \<^verbatim>\<open>content\<close>.
\<close>

record UserInterface =
  user_id :: ObjectId
  user_content :: "ObjectId list option"

datatype get_result =
    GFalse
  | GObject (ud_message: "string option") (ud_first: "UserInterface option")
      (ud_content: "ObjectId list option")

text \<open>An array of user documents: it has an element 0 unless it is empty, and neither a
  \<^verbatim>\<open>message\<close> nor a \<^verbatim>\<open>content\<close> property.\<close>

definition user_array :: "UserInterface list \<Rightarrow> get_result" where
  "user_array us = GObject None (case us of [] \<Rightarrow> None | u # _ \<Rightarrow> Some u) None"

text \<open>
  The calls \<^verbatim>\<open>user.get(id, { content: 1 })\<close>,
  \<^verbatim>\<open>user.update(id, { content: ids }, returnError)\<close> and \<^verbatim>\<open>insertOne(pushOBJ, cb)\<close>.
\<close>

datatype 'c call =
    UserGet ObjectId
  | UserUpdate ObjectId "ObjectId list" "bool option"
  | InsertOne "'c ContentInterface"

fun is_write :: "'c call \<Rightarrow> bool" where
  "is_write (UserGet _) = False"
| "is_write (UserUpdate _ _ _) = True"
| "is_write (InsertOne _) = True"

fun is_user_call :: "'c call \<Rightarrow> bool" where
  "is_user_call (UserGet _) = True"
| "is_user_call (UserUpdate _ _ _) = True"
| "is_user_call (InsertOne _) = False"

text \<open>
  The environment: the id that \<^verbatim>\<open>new ObjectId()\<close> generates, what \<^verbatim>\<open>user.get\<close>
  resolves to, whether \<^verbatim>\<open>user.update\<close> is fulfilled (\<open>None\<close>) or rejected with a
  failure, and the error message that \<^verbatim>\<open>insertOne\<close> hands to its callback
  (\<open>None\<close> when the insert went through). The collaborators are taken at the word of
  their use in \<^verbatim>\<open>create\<close>: \<^verbatim>\<open>user.get\<close> resolves (to \<^verbatim>\<open>false\<close> or to an
  object), \<^verbatim>\<open>user.update\<close> rejects with \<^verbatim>\<open>false\<close> or with an error object, and
  \<^verbatim>\<open>insertOne\<close> calls its callback.
\<close>

record 'c env =
  fresh_id :: ObjectId
  user_get :: "ObjectId \<Rightarrow> get_result"
  user_update :: "ObjectId \<Rightarrow> ObjectId list \<Rightarrow> bool option \<Rightarrow> failure option"
  insertOne :: "'c ContentInterface \<Rightarrow> string option"

subsection \<open>The executor\<close>

text \<open>
  \<^verbatim>\<open>if(returnError === true) return reject({...}); return reject(false);\<close>
\<close>

definition reject_with :: "bool option \<Rightarrow> ErrorInterface \<Rightarrow> failure" where
  "reject_with returnError e = (if returnError = Some True then JError e else JFalse)"

text \<open>Lines 44 to 50: the object literal \<^verbatim>\<open>pushOBJ\<close>.\<close>

definition build :: "'c env \<Rightarrow> AddonInterface \<Rightarrow> string \<Rightarrow> 'c payload \<Rightarrow> exn + 'c ContentInterface" where
  "build e addon type_name c =
     (case ObjectId_new (addon_ident addon) of
        None \<Rightarrow> Inl BSONTypeError
      | Some a \<Rightarrow>
          Inr \<lparr>rec_id = fresh_id e, addon_id = a, rec_type = toLowerCase type_name,
               rec_owner = None, history = [], rec_content = content c\<rparr>)"

text \<open>The template \<^verbatim>\<open>${content.owner}\<close>.\<close>

definition owner_text :: "'c payload \<Rightarrow> string" where
  "owner_text c = (case owner c of None \<Rightarrow> ''undefined'' | Some s \<Rightarrow> s)"

text \<open>Lines 53 to 67: an early end of the executor is \<open>Inl\<close>.\<close>

definition set_owner ::
  "bool option \<Rightarrow> 'c payload \<Rightarrow> 'c ContentInterface \<Rightarrow> 'c outcome + 'c ContentInterface" where
  "set_owner returnError c pushOBJ =
     (case owner c of
        None \<Rightarrow> Inr pushOBJ
      | Some s \<Rightarrow>
          if \<not> ObjectId_isValid s then
            Inl (Rejected (reject_with returnError
              \<lparr>code = Some 1, local_key = Some INVALID_ID, where_in = Some ''create.ts'',
               message = Some (''The owner '' @ owner_text c @ '' is not a valid BSON ID'')\<rparr>))
          else
            (case ObjectId_new s of
               None \<Rightarrow> Inl (Thrown BSONTypeError)
             | Some i \<Rightarrow> Inr (pushOBJ\<lparr>rec_owner := Some i\<rparr>)))"

text \<open>Line 75: \<^verbatim>\<open>user_data === false || user_data.message !== undefined ||
  user_data[0] === undefined\<close>.\<close>

definition user_missing :: "get_result \<Rightarrow> bool" where
  "user_missing user_data \<longleftrightarrow>
     user_data = GFalse \<or> ud_message user_data \<noteq> None \<or> ud_first user_data = None"

text \<open>Line 87: \<^verbatim>\<open>[...user_data.content || [], pushOBJ._id]\<close>.\<close>

definition owned_ids :: "get_result \<Rightarrow> ObjectId \<Rightarrow> ObjectId list" where
  "owned_ids user_data i =
     (case user_data of
        GFalse \<Rightarrow> []
      | GObject _ _ ids \<Rightarrow> (case ids of None \<Rightarrow> [] | Some xs \<Rightarrow> xs)) @ [i]"

text \<open>
  Lines 70 to 91. The executor either ends (\<open>Return\<close>: a \<^verbatim>\<open>return reject(...)\<close> or
  a throw) or goes on to the insert (\<open>Proceed\<close>) with the promise pending (\<open>None\<close>) or
  settled already. The handler given to \<^verbatim>\<open>catch\<close> rethrows when \<^verbatim>\<open>err.code === 0\<close>;
  otherwise it calls \<^verbatim>\<open>resolve(err)\<close> and returns, so the awaited promise is fulfilled
  and the executor goes on.
\<close>

datatype 'c flow = Return "'c outcome" | Proceed "'c outcome option"

definition err_code :: "failure \<Rightarrow> int option" where
  "err_code err = (case err of JFalse \<Rightarrow> None | JError x \<Rightarrow> code x)"

definition err_message :: "failure \<Rightarrow> string option" where
  "err_message err = (case err of JFalse \<Rightarrow> None | JError x \<Rightarrow> message x)"

definition update_user ::
  "'c env \<Rightarrow> bool option \<Rightarrow> 'c payload \<Rightarrow> 'c ContentInterface \<Rightarrow> 'c flow \<times> 'c call list" where
  "update_user e returnError c pushOBJ =
     (case rec_owner pushOBJ of
        None \<Rightarrow> (Proceed None, [])
      | Some i \<Rightarrow>
          (let user_data = user_get e i
           in if user_missing user_data then
                (Return (Rejected (reject_with returnError
                   \<lparr>code = Some 1, local_key = Some INVALID_ID, where_in = Some ''create.ts'',
                    message = Some (''The owner '' @ owner_text c @ '' is not found'')\<rparr>)),
                 [UserGet i])
              else
                (let ids = owned_ids user_data (rec_id pushOBJ)
                 in case user_update e i ids returnError of
                      None \<Rightarrow> (Proceed None, [UserGet i, UserUpdate i ids returnError])
                    | Some err \<Rightarrow>
                        if err_code err = Some 0 then
                          (Return (Thrown (Error (err_message err))),
                           [UserGet i, UserUpdate i ids returnError])
                        else
                          (Proceed (Some (Resolved (Failure err))),
                           [UserGet i, UserUpdate i ids returnError]))))"

text \<open>Lines 93 to 106: what the callback of \<^verbatim>\<open>insertOne\<close> asks of the promise.\<close>

definition persist :: "'c env \<Rightarrow> bool option \<Rightarrow> 'c ContentInterface \<Rightarrow> 'c outcome" where
  "persist e returnError pushOBJ =
     (case insertOne e pushOBJ of
        Some m \<Rightarrow>
          Rejected (reject_with returnError
            \<lparr>code = None, local_key = Some DB_ERROR, where_in = Some ''update.ts'',
             message = Some m\<rparr>)
      | None \<Rightarrow> Resolved (Content pushOBJ))"

text \<open>A promise settles once: \<^verbatim>\<open>resolve\<close> and \<^verbatim>\<open>reject\<close> do nothing on a promise
  that is settled.\<close>

definition settle :: "'c outcome option \<Rightarrow> 'c outcome \<Rightarrow> 'c outcome" where
  "settle p v = (case p of None \<Rightarrow> v | Some w \<Rightarrow> w)"

text \<open>The exported function: the outcome of its promise and the calls it made.\<close>

definition create ::
  "'c env \<Rightarrow> AddonInterface \<Rightarrow> string \<Rightarrow> 'c payload \<Rightarrow> bool option \<Rightarrow> 'c outcome \<times> 'c call list" where
  "create e addon type_name c returnError =
     (if type_name \<notin> set (addon_types addon) then
        (Rejected (reject_with returnError
           \<lparr>code = Some 1, local_key = Some INVALID_TYPE, where_in = Some ''create.ts'',
            message = Some (''The type '' @ type_name @ '' is not defined in the addon ''
                            @ addon_name addon)\<rparr>), [])
      else
        (case build e addon type_name c of
           Inl x \<Rightarrow> (Thrown x, [])
         | Inr obj0 \<Rightarrow>
             (case set_owner returnError c obj0 of
                Inl out \<Rightarrow> (out, [])
              | Inr pushOBJ \<Rightarrow>
                  (case update_user e returnError c pushOBJ of
                     (Return out, calls) \<Rightarrow> (out, calls)
                   | (Proceed p, calls) \<Rightarrow>
                       (settle p (persist e returnError pushOBJ),
                        calls @ [InsertOne pushOBJ])))))"

subsection \<open>Scenarios\<close>

text \<open>
  The inputs of the scenarios below: the addon \<^verbatim>\<open>{name: "blog", types: ["post"]}\<close>, an
  addon whose id is not an ObjectId, a user store that holds one user (who owns one
  record already) and answers \<^verbatim>\<open>user.get\<close> with an array of the matching documents,
  and stores whose ledger update or insert fails.
\<close>

definition blog :: AddonInterface where
  "blog = \<lparr>addon_name = ''blog'', addon_ident = ''5f4f71e588d7b53addd304e6'',
            addon_types = [''post'']\<rparr>"

definition blog_id :: ObjectId where
  "blog_id = [95, 79, 113, 229, 136, 215, 181, 58, 221, 211, 4, 230]"

definition broken_addon :: AddonInterface where
  "broken_addon = \<lparr>addon_name = ''blog'', addon_ident = ''not-a-valid-id'',
                    addon_types = [''post'']\<rparr>"

definition new_id :: ObjectId where
  "new_id = [99, 2, 3, 4, 5, 6, 7, 8, 9, 10, 11, 12]"

definition old_id :: ObjectId where
  "old_id = [12, 11, 10, 9, 8, 7, 6, 5, 4, 3, 2, 1]"

definition alice :: string where
  "alice = ''0102030405060708090a0b0c''"

definition alice_id :: ObjectId where
  "alice_id = [1, 2, 3, 4, 5, 6, 7, 8, 9, 10, 11, 12]"

definition nobody :: string where
  "nobody = ''ffffffffffffffffffffffff''"

definition nobody_id :: ObjectId where
  "nobody_id = [255, 255, 255, 255, 255, 255, 255, 255, 255, 255, 255, 255]"

definition users :: "ObjectId \<Rightarrow> get_result" where
  "users i =
     (if i = alice_id then user_array [\<lparr>user_id = alice_id, user_content = Some [old_id]\<rparr>]
      else user_array [])"

definition store :: "string env" where
  "store = \<lparr>fresh_id = new_id, user_get = users,
             user_update = (\<lambda>i ids returnError. None), insertOne = (\<lambda>obj. None)\<rparr>"

definition ledger_error :: failure where
  "ledger_error = JError \<lparr>code = Some 1, local_key = Some DB_ERROR,
                           where_in = Some ''update.ts'', message = Some ''update failed''\<rparr>"

definition ledger_down :: "string env" where
  "ledger_down = \<lparr>fresh_id = new_id, user_get = users,
                   user_update = (\<lambda>i ids returnError. Some ledger_error),
                   insertOne = (\<lambda>obj. None)\<rparr>"

definition fatal_error :: failure where
  "fatal_error = JError \<lparr>code = Some 0, local_key = Some DB_ERROR,
                          where_in = Some ''update.ts'', message = Some ''fatal''\<rparr>"

definition ledger_fatal :: "string env" where
  "ledger_fatal = \<lparr>fresh_id = new_id, user_get = users,
                    user_update = (\<lambda>i ids returnError. Some fatal_error),
                    insertOne = (\<lambda>obj. None)\<rparr>"

definition storage_down :: "string env" where
  "storage_down = \<lparr>fresh_id = new_id, user_get = users,
                    user_update = (\<lambda>i ids returnError. None),
                    insertOne = (\<lambda>obj. Some ''insert failed'')\<rparr>"

definition unowned_post :: "string ContentInterface" where
  "unowned_post = \<lparr>rec_id = new_id, addon_id = blog_id, rec_type = ''post'',
                    rec_owner = None, history = [], rec_content = ''hi''\<rparr>"

definition owned_post :: "string ContentInterface" where
  "owned_post = \<lparr>rec_id = new_id, addon_id = blog_id, rec_type = ''post'',
                  rec_owner = Some alice_id, history = [], rec_content = ''x''\<rparr>"

section \<open>Properties\<close>

subsection \<open>ObjectId\<close>

lemma hex_bytes_None:
  "hex_bytes s = None \<longleftrightarrow> odd (length s) \<or> \<not> list_all (\<lambda>c. hex_value c \<noteq> None) s"
  by (induction s rule: hex_bytes.induct) (auto split: option.splits)

text \<open>The strings that are valid ids: twelve ASCII characters, or twenty-four
  hexadecimal digits.\<close>

lemma ObjectId_isValid_iff:
  "ObjectId_isValid s \<longleftrightarrow>
     (length s = 12 \<and> list_all (\<lambda>c. (of_char c :: nat) < 128) s) \<or>
     (length s = 24 \<and> list_all (\<lambda>c. hex_value c \<noteq> None) s)"
  using hex_bytes_None [of s] by (auto simp: ObjectId_isValid_def ObjectId_new_def)

text \<open>The constructor call of line 66 comes after the check of line 55, so it does not
  throw.\<close>

lemma ObjectId_new_valid: "ObjectId_isValid s \<Longrightarrow> \<exists>i. ObjectId_new s = Some i"
  by (simp add: ObjectId_isValid_def)

lemmas create_defs = create_def build_def set_owner_def update_user_def persist_def settle_def

subsection \<open>Type validation\<close>

text \<open>
  C1, as the code has it. The type is compared with the addon's types as it was given:
  \<^verbatim>\<open>create\<close> rejects with \<^verbatim>\<open>INVALID_TYPE\<close> (with \<^verbatim>\<open>false\<close> unless
  \<^verbatim>\<open>returnError\<close> is true), before any call, exactly when the type is not an element
  of \<^verbatim>\<open>addon.types\<close>. A type that is an element is never rejected as
  \<^verbatim>\<open>INVALID_TYPE\<close>, and the record handed to \<^verbatim>\<open>insertOne\<close> carries it in lower
  case: the lowering comes after the check. With an addon id that is an ObjectId and no
  owner, such a call goes straight to \<^verbatim>\<open>insertOne\<close> and succeeds when the insert
  does.
\<close>

theorem create_type_validation:
  "(type_name \<notin> set (addon_types addon) \<longrightarrow>
      create e addon type_name c returnError =
        (Rejected (reject_with returnError
           \<lparr>code = Some 1, local_key = Some INVALID_TYPE, where_in = Some ''create.ts'',
            message = Some (''The type '' @ type_name @ '' is not defined in the addon ''
                            @ addon_name addon)\<rparr>), [])) \<and>
   (type_name \<in> set (addon_types addon) \<longrightarrow>
      (\<forall>x. fst (create e addon type_name c returnError) = Rejected (JError x) \<longrightarrow>
            local_key x \<noteq> Some INVALID_TYPE) \<and>
      (\<forall>obj. InsertOne obj \<in> set (snd (create e addon type_name c returnError)) \<longrightarrow>
            rec_type obj = toLowerCase type_name) \<and>
      (ObjectId_new (addon_ident addon) \<noteq> None \<and> owner c = None \<longrightarrow>
         (\<exists>obj. snd (create e addon type_name c returnError) = [InsertOne obj] \<and>
            (insertOne e obj = None \<longrightarrow>
               fst (create e addon type_name c returnError) = Resolved (Content obj)))))"
  by (auto simp: create_defs reject_with_def Let_def
           split: option.splits sum.splits flow.splits if_splits)

theorem create_type_validation_witness:
  "''comment'' \<notin> set (addon_types blog) \<and>
   create store blog ''comment'' \<lparr>content = ''x'', owner = None\<rparr> None = (Rejected JFalse, []) \<and>
   ''post'' \<in> set (addon_types blog) \<and>
   InsertOne unowned_post \<in> set (snd (create store blog ''post'' \<lparr>content = ''hi'', owner = None\<rparr> None)) \<and>
   rec_type unowned_post = toLowerCase ''post''"
proof -
  have no: "''comment'' \<notin> set (addon_types blog)"
    by (simp add: blog_def)
  have yes: "''post'' \<in> set (addon_types blog)"
    by (simp add: blog_def)
  have ins: "InsertOne unowned_post
      \<in> set (snd (create store blog ''post'' \<lparr>content = ''hi'', owner = None\<rparr> None))"
    by code_simp
  have "create store blog ''comment'' \<lparr>content = ''x'', owner = None\<rparr> None = (Rejected JFalse, [])"
    using create_type_validation [of "''comment''" blog store "\<lparr>content = ''x'', owner = None\<rparr>" None] no
    by (simp add: reject_with_def)
  moreover have "rec_type unowned_post = toLowerCase ''post''"
    using create_type_validation [of "''post''" blog store "\<lparr>content = ''hi'', owner = None\<rparr>" None]
      yes ins
    by blast
  ultimately show ?thesis
    using no yes ins by simp
qed

text \<open>
  C1, as the specification has it, fails: \<^verbatim>\<open>"Post"\<close> lowered is a type of the addon
  that registers \<^verbatim>\<open>"post"\<close>, and \<^verbatim>\<open>create\<close> rejects it as \<^verbatim>\<open>INVALID_TYPE\<close>.
\<close>

theorem create_mixed_case_type_rejected:
  "toLowerCase ''Post'' \<in> set (addon_types blog) \<and>
   create store blog ''Post'' \<lparr>content = ''hi'', owner = None\<rparr> (Some True) =
     (Rejected (JError \<lparr>code = Some 1, local_key = Some INVALID_TYPE,
                        where_in = Some ''create.ts'',
                        message = Some ''The type Post is not defined in the addon blog''\<rparr>), [])"
proof -
  have "toLowerCase ''Post'' \<in> set (addon_types blog)"
    by code_simp
  moreover have "create store blog ''Post'' \<lparr>content = ''hi'', owner = None\<rparr> (Some True) =
     (Rejected (JError \<lparr>code = Some 1, local_key = Some INVALID_TYPE,
                        where_in = Some ''create.ts'',
                        message = Some ''The type Post is not defined in the addon blog''\<rparr>), [])"
    by code_simp
  ultimately show ?thesis
    by simp
qed

subsection \<open>Owner validation\<close>

text \<open>
  Once the type check has passed and the addon id has been constructed, an owner that
  is supplied and is not a valid ObjectId makes \<^verbatim>\<open>create\<close> reject with
  \<^verbatim>\<open>INVALID_ID\<close> (with \<^verbatim>\<open>false\<close> unless \<^verbatim>\<open>returnError\<close> is true); the id
  is not coerced, and no collaborator is called.
\<close>

lemma create_invalid_owner:
  assumes "type_name \<in> set (addon_types addon)"
    and "ObjectId_new (addon_ident addon) = Some a"
    and "owner c = Some s"
    and "\<not> ObjectId_isValid s"
  shows "create e addon type_name c returnError =
    (Rejected (reject_with returnError
       \<lparr>code = Some 1, local_key = Some INVALID_ID, where_in = Some ''create.ts'',
        message = Some (''The owner '' @ s @ '' is not a valid BSON ID'')\<rparr>), [])"
  using assms by (simp add: create_defs owner_text_def)

text \<open>
  C3, as the code has it. For every call whose type is registered and whose addon id is
  an ObjectId, an owner id that is valid and that \<^verbatim>\<open>user.get\<close> does not resolve to a
  user makes \<^verbatim>\<open>create\<close> reject, after the one call of \<^verbatim>\<open>user.get\<close>, with the key
  \<^verbatim>\<open>INVALID_ID\<close> and the message that the owner is not found (with \<^verbatim>\<open>false\<close> unless
  \<^verbatim>\<open>returnError\<close> is true). The key is the one of a malformed id.
\<close>

theorem create_owner_not_found:
  assumes "type_name \<in> set (addon_types addon)"
    and "ObjectId_new (addon_ident addon) = Some a"
    and "owner c = Some s"
    and "ObjectId_isValid s"
    and "ObjectId_new s = Some i"
    and "user_missing (user_get e i)"
  shows "create e addon type_name c returnError =
    (Rejected (reject_with returnError
       \<lparr>code = Some 1, local_key = Some INVALID_ID, where_in = Some ''create.ts'',
        message = Some (''The owner '' @ s @ '' is not found'')\<rparr>), [UserGet i])"
  using assms by (simp add: create_defs owner_text_def)

theorem create_owner_not_found_witness:
  "create store blog ''post'' \<lparr>content = ''x'', owner = Some nobody\<rparr> None =
     (Rejected JFalse, [UserGet nobody_id])"
proof -
  have t: "''post'' \<in> set (addon_types blog)"
    by (simp add: blog_def)
  have a: "ObjectId_new (addon_ident blog) = Some blog_id"
    by code_simp
  have o: "owner \<lparr>content = ''x'', owner = Some nobody\<rparr> = Some nobody"
    by simp
  have v: "ObjectId_isValid nobody"
    by code_simp
  have n: "ObjectId_new nobody = Some nobody_id"
    by code_simp
  have m: "user_missing (user_get store nobody_id)"
    by code_simp
  show ?thesis
    using create_owner_not_found [OF t a o v n m, of None]
    by (simp add: reject_with_def)
qed

text \<open>
  C3, as the specification has it, fails: the well-formed id of no user and a malformed
  id are both reported under \<^verbatim>\<open>INVALID_ID\<close>; only the messages differ.
\<close>

theorem create_owner_not_found_kind:
  "ObjectId_isValid nobody \<and> \<not> ObjectId_isValid ''not-a-valid-id'' \<and>
   create store blog ''post'' \<lparr>content = ''x'', owner = Some nobody\<rparr> (Some True) =
     (Rejected (JError \<lparr>code = Some 1, local_key = Some INVALID_ID,
                        where_in = Some ''create.ts'',
                        message = Some ''The owner ffffffffffffffffffffffff is not found''\<rparr>),
      [UserGet nobody_id]) \<and>
   create store blog ''post'' \<lparr>content = ''x'', owner = Some ''not-a-valid-id''\<rparr> (Some True) =
     (Rejected (JError \<lparr>code = Some 1, local_key = Some INVALID_ID,
                        where_in = Some ''create.ts'',
                        message = Some ''The owner not-a-valid-id is not a valid BSON ID''\<rparr>),
      [])"
proof -
  have "ObjectId_isValid nobody"
    by code_simp
  moreover have "\<not> ObjectId_isValid ''not-a-valid-id''"
    by code_simp
  moreover have "create store blog ''post'' \<lparr>content = ''x'', owner = Some nobody\<rparr> (Some True) =
     (Rejected (JError \<lparr>code = Some 1, local_key = Some INVALID_ID,
                        where_in = Some ''create.ts'',
                        message = Some ''The owner ffffffffffffffffffffffff is not found''\<rparr>),
      [UserGet nobody_id])"
    by code_simp
  moreover have
    "create store blog ''post'' \<lparr>content = ''x'', owner = Some ''not-a-valid-id''\<rparr> (Some True) =
     (Rejected (JError \<lparr>code = Some 1, local_key = Some INVALID_ID,
                        where_in = Some ''create.ts'',
                        message = Some ''The owner not-a-valid-id is not a valid BSON ID''\<rparr>),
      [])"
    by code_simp
  ultimately show ?thesis
    by simp
qed

subsection \<open>Validation comes before every write\<close>

text \<open>
  A call whose type is not registered, or whose owner is supplied and is malformed, or
  is well formed and not resolved to a user by \<^verbatim>\<open>user.get\<close>, makes no write:
  neither \<^verbatim>\<open>user.update\<close> nor \<^verbatim>\<open>insertOne\<close> is among its calls, and its
  promise is not resolved. This holds whatever the addon id is.
\<close>

lemma create_validation_no_writes:
  assumes "type_name \<notin> set (addon_types addon) \<or>
     (owner c = Some s \<and>
        (\<not> ObjectId_isValid s \<or> (ObjectId_new s = Some i \<and> user_missing (user_get e i))))"
  shows "filter is_write (snd (create e addon type_name c returnError)) = [] \<and>
         (\<forall>v. fst (create e addon type_name c returnError) \<noteq> Resolved v)"
  using assms
  by (auto simp: create_defs Let_def split: option.splits sum.splits flow.splits if_splits)

text \<open>
  Such a call is rejected with \<^verbatim>\<open>INVALID_TYPE\<close> or \<^verbatim>\<open>INVALID_ID\<close> (with
  \<^verbatim>\<open>false\<close> unless \<^verbatim>\<open>returnError\<close> is true) when the type check fails, and
  otherwise when the constructor of line 46 accepts the addon id.
\<close>

lemma create_validation_rejected:
  assumes "type_name \<notin> set (addon_types addon) \<or>
     (ObjectId_new (addon_ident addon) \<noteq> None \<and> owner c = Some s \<and>
        (\<not> ObjectId_isValid s \<or> (ObjectId_new s = Some i \<and> user_missing (user_get e i))))"
  shows "\<exists>x. fst (create e addon type_name c returnError) = Rejected (reject_with returnError x) \<and>
              (local_key x = Some INVALID_TYPE \<or> local_key x = Some INVALID_ID)"
  using assms
  by (auto simp: create_defs Let_def split: option.splits sum.splits flow.splits if_splits)

subsection \<open>The record that is created\<close>

text \<open>
  C9. When \<^verbatim>\<open>create\<close> succeeds (its promise is resolved with the record), the record
  has an empty history, and it is the record that was handed to \<^verbatim>\<open>insertOne\<close>, which
  reported no error. Every record handed to \<^verbatim>\<open>insertOne\<close> has an empty history.
\<close>

theorem create_history_empty:
  assumes "fst (create e addon type_name c returnError) = Resolved (Content obj)"
  shows "history obj = [] \<and>
         InsertOne obj \<in> set (snd (create e addon type_name c returnError)) \<and>
         insertOne e obj = None \<and>
         (\<forall>obj'. InsertOne obj' \<in> set (snd (create e addon type_name c returnError)) \<longrightarrow>
            history obj' = [])"
  using assms
  by (auto simp: create_defs Let_def split: option.splits sum.splits flow.splits if_splits)

theorem create_history_empty_witness:
  "fst (create store blog ''post'' \<lparr>content = ''x'', owner = Some alice\<rparr> (Some True)) =
     Resolved (Content owned_post) \<and>
   history owned_post = [] \<and>
   InsertOne owned_post
     \<in> set (snd (create store blog ''post'' \<lparr>content = ''x'', owner = Some alice\<rparr> (Some True)))"
proof -
  have r: "fst (create store blog ''post'' \<lparr>content = ''x'', owner = Some alice\<rparr> (Some True)) =
     Resolved (Content owned_post)"
    by code_simp
  show ?thesis
    using create_history_empty [OF r] r by simp
qed

text \<open>
  C10. When no owner is supplied, \<^verbatim>\<open>create\<close> calls neither \<^verbatim>\<open>user.get\<close> nor
  \<^verbatim>\<open>user.update\<close>; it makes no call at all, or the single call of \<^verbatim>\<open>insertOne\<close>
  with a record that has no owner (exactly that call when the type is registered and the
  addon id is an ObjectId); and the record it resolves with has no owner.
\<close>

theorem create_without_owner:
  assumes "owner c = None"
  shows "filter is_user_call (snd (create e addon type_name c returnError)) = [] \<and>
         (snd (create e addon type_name c returnError) = [] \<or>
          (\<exists>obj. snd (create e addon type_name c returnError) = [InsertOne obj] \<and>
                 rec_owner obj = None)) \<and>
         (\<forall>obj. fst (create e addon type_name c returnError) = Resolved (Content obj) \<longrightarrow>
            rec_owner obj = None \<and>
            snd (create e addon type_name c returnError) = [InsertOne obj]) \<and>
         (type_name \<in> set (addon_types addon) \<and> ObjectId_new (addon_ident addon) \<noteq> None \<longrightarrow>
            (\<exists>obj. snd (create e addon type_name c returnError) = [InsertOne obj]))"
  using assms
  by (auto simp: create_defs Let_def split: option.splits sum.splits flow.splits if_splits)

theorem create_without_owner_witness:
  "filter is_user_call (snd (create store blog ''post'' \<lparr>content = ''hi'', owner = None\<rparr> None)) = [] \<and>
   fst (create store blog ''post'' \<lparr>content = ''hi'', owner = None\<rparr> None) =
     Resolved (Content unowned_post) \<and>
   rec_owner unowned_post = None \<and>
   snd (create store blog ''post'' \<lparr>content = ''hi'', owner = None\<rparr> None) = [InsertOne unowned_post]"
proof -
  have o: "owner \<lparr>content = ''hi'', owner = None\<rparr> = None"
    by simp
  have r: "fst (create store blog ''post'' \<lparr>content = ''hi'', owner = None\<rparr> None) =
     Resolved (Content unowned_post)"
    by code_simp
  show ?thesis
    using create_without_owner [OF o, of store blog "''post''" None] r by simp
qed

subsection \<open>How a failure is reported\<close>

text \<open>
  When \<^verbatim>\<open>create\<close> rejects its promise, the value follows \<^verbatim>\<open>returnError\<close>: an
  error object when the flag is true, which for the validation failures carries
  \<^verbatim>\<open>code\<close>, \<^verbatim>\<open>local_key\<close>, \<^verbatim>\<open>where\<close> and \<^verbatim>\<open>message\<close>; the boolean
  \<^verbatim>\<open>false\<close> otherwise.
\<close>

lemma create_rejection_follows_flag:
  assumes "fst (create e addon type_name c returnError) = Rejected f"
  shows "if returnError = Some True
       then \<exists>x. f = JError x \<and>
              (local_key x = Some DB_ERROR \<or>
               ((local_key x = Some INVALID_TYPE \<or> local_key x = Some INVALID_ID) \<and>
                code x = Some 1 \<and> where_in x = Some ''create.ts'' \<and> message x \<noteq> None))
       else f = JFalse"
  using assms
  by (auto simp: create_defs reject_with_def Let_def
           split: option.splits sum.splits flow.splits if_splits)

text \<open>
  A rejected ledger update never leads to a rejection of the promise: with the code 0
  the executor throws and \<^verbatim>\<open>insertOne\<close> is not called, with any other error the
  promise is resolved with the error and \<^verbatim>\<open>insertOne\<close> is called all the same.
\<close>

lemma create_ledger_failure:
  assumes "UserUpdate i ids returnError \<in> set (snd (create e addon type_name c returnError))"
    and "user_update e i ids returnError = Some err"
  shows "if err_code err = Some 0
       then fst (create e addon type_name c returnError) = Thrown (Error (err_message err)) \<and>
            (\<forall>obj. InsertOne obj \<notin> set (snd (create e addon type_name c returnError)))
       else fst (create e addon type_name c returnError) = Resolved (Failure err) \<and>
            (\<exists>obj. InsertOne obj \<in> set (snd (create e addon type_name c returnError)))"
  using assms
  by (auto simp: create_defs reject_with_def Let_def
           split: option.splits sum.splits flow.splits if_splits)

subsection \<open>Where the code departs from its specification\<close>

text \<open>
  C2 says that a failed ledger update fails the whole operation and that the record is
  not inserted. At the input below the update is rejected with an error whose code is
  not 0: the handler given to \<^verbatim>\<open>catch\<close> resolves the promise with that error and
  returns to the executor, which goes on to \<^verbatim>\<open>insertOne\<close>. The insert goes through,
  so the owned record is stored although its owner's ledger was not updated.
\<close>

theorem create_ledger_failure_still_inserts:
  "user_update ledger_down alice_id [new_id] (Some True) = Some ledger_error \<and>
   insertOne ledger_down owned_post = None \<and>
   create ledger_down blog ''post'' \<lparr>content = ''x'', owner = Some alice\<rparr> (Some True) =
     (Resolved (Failure ledger_error),
      [UserGet alice_id, UserUpdate alice_id [new_id] (Some True), InsertOne owned_post])"
proof -
  have "user_update ledger_down alice_id [new_id] (Some True) = Some ledger_error"
    by (simp add: ledger_down_def)
  moreover have "insertOne ledger_down owned_post = None"
    by (simp add: ledger_down_def)
  moreover have
    "create ledger_down blog ''post'' \<lparr>content = ''x'', owner = Some alice\<rparr> (Some True) =
     (Resolved (Failure ledger_error),
      [UserGet alice_id, UserUpdate alice_id [new_id] (Some True), InsertOne owned_post])"
    by code_simp
  ultimately show ?thesis
    by simp
qed

text \<open>
  C5 says that the addon id is validated before it is used, so that a malformed addon
  id is reported as an error. \<^verbatim>\<open>create\<close> hands \<^verbatim>\<open>addon.id\<close> to the constructor
  unchecked (line 46), where the owner is checked with \<^verbatim>\<open>isValid\<close> first (line 55):
  at the input below the constructor throws and the promise is never settled.
\<close>

theorem create_malformed_addon_id_throws:
  "\<not> ObjectId_isValid (addon_ident broken_addon) \<and>
   create store broken_addon ''post'' \<lparr>content = ''x'', owner = None\<rparr> (Some True) =
     (Thrown BSONTypeError, [])"
proof -
  have "\<not> ObjectId_isValid (addon_ident broken_addon)"
    by code_simp
  moreover have
    "create store broken_addon ''post'' \<lparr>content = ''x'', owner = None\<rparr> (Some True) =
     (Thrown BSONTypeError, [])"
    by code_simp
  ultimately show ?thesis
    by simp
qed

text \<open>
  C7 says that the new id is appended to the ids that the owner holds already. Line 75
  requires \<^verbatim>\<open>user_data[0]\<close>, so \<^verbatim>\<open>user_data\<close> is the array of the documents found,
  and line 87 reads \<^verbatim>\<open>user_data.content\<close>, which an array does not have: at the input
  below the owner holds \<open>old_id\<close>, and \<^verbatim>\<open>user.update\<close> is called with the new id
  alone.
\<close>

theorem create_overwrites_owned_ids:
  "user_get store alice_id = user_array [\<lparr>user_id = alice_id, user_content = Some [old_id]\<rparr>] \<and>
   create store blog ''post'' \<lparr>content = ''x'', owner = Some alice\<rparr> (Some True) =
     (Resolved (Content owned_post),
      [UserGet alice_id, UserUpdate alice_id [new_id] (Some True), InsertOne owned_post]) \<and>
   old_id \<notin> set [new_id]"
proof -
  have "user_get store alice_id = user_array [\<lparr>user_id = alice_id, user_content = Some [old_id]\<rparr>]"
    by (simp add: store_def users_def)
  moreover have
    "create store blog ''post'' \<lparr>content = ''x'', owner = Some alice\<rparr> (Some True) =
     (Resolved (Content owned_post),
      [UserGet alice_id, UserUpdate alice_id [new_id] (Some True), InsertOne owned_post])"
    by code_simp
  moreover have "old_id \<notin> set [new_id]"
    by code_simp
  ultimately show ?thesis
    by simp
qed

text \<open>
  C4 says that every failure is reported as an error object with \<^verbatim>\<open>code\<close>,
  \<^verbatim>\<open>local_key\<close>, \<^verbatim>\<open>where\<close> and \<^verbatim>\<open>message\<close> when \<^verbatim>\<open>returnError\<close> is
  true, and as \<^verbatim>\<open>false\<close> otherwise. At the inputs below \<^verbatim>\<open>returnError\<close> is true.
  When the insert fails, the error object has no \<^verbatim>\<open>code\<close> (the three rejections
  before it set \<^verbatim>\<open>code: 1\<close>). When the ledger update fails with the code 0, the
  handler throws inside the executor: the promise is neither resolved nor rejected.
\<close>

theorem create_failure_outside_channels:
  "create storage_down blog ''post'' \<lparr>content = ''hi'', owner = None\<rparr> (Some True) =
     (Rejected (JError \<lparr>code = None, local_key = Some DB_ERROR, where_in = Some ''update.ts'',
                        message = Some ''insert failed''\<rparr>),
      [InsertOne unowned_post]) \<and>
   create ledger_fatal blog ''post'' \<lparr>content = ''x'', owner = Some alice\<rparr> (Some True) =
     (Thrown (Error (Some ''fatal'')),
      [UserGet alice_id, UserUpdate alice_id [new_id] (Some True)])"
proof -
  have "create ledger_fatal blog ''post'' \<lparr>content = ''x'', owner = Some alice\<rparr> (Some True) =
     (Thrown (Error (Some ''fatal'')),
      [UserGet alice_id, UserUpdate alice_id [new_id] (Some True)])"
    by code_simp
  moreover have "create storage_down blog ''post'' \<lparr>content = ''hi'', owner = None\<rparr> (Some True) =
     (Rejected (JError \<lparr>code = None, local_key = Some DB_ERROR, where_in = Some ''update.ts'',
                        message = Some ''insert failed''\<rparr>),
      [InsertOne unowned_post])"
    by code_simp
  ultimately show ?thesis
    by simp
qed

text \<open>
  C6 says that a call whose owner is supplied and is not a valid identifier fails with
  \<^verbatim>\<open>InvalidIdentifier\<close> (or \<^verbatim>\<open>false\<close>). At the input below the type is registered
  and the owner is malformed, and so is the addon id: the unchecked constructor of line
  46 throws before the owner check of line 55 is reached, so the call fails with neither.
  This is the defect of C5.
\<close>

theorem create_invalid_owner_unreported:
  "''post'' \<in> set (addon_types broken_addon) \<and>
   \<not> ObjectId_isValid ''not-a-valid-id'' \<and>
   create store broken_addon ''post''
       \<lparr>content = ''x'', owner = Some ''not-a-valid-id''\<rparr> (Some True) =
     (Thrown BSONTypeError, [])"
proof -
  have "''post'' \<in> set (addon_types broken_addon)"
    by (simp add: broken_addon_def)
  moreover have "\<not> ObjectId_isValid ''not-a-valid-id''"
    by code_simp
  moreover have
    "create store broken_addon ''post''
       \<lparr>content = ''x'', owner = Some ''not-a-valid-id''\<rparr> (Some True) =
     (Thrown BSONTypeError, [])"
    by code_simp
  ultimately show ?thesis
    by simp
qed

text \<open>
  C8 says that a validation failure is detected and reported before any write. No write
  is made, but at the inputs below nothing is reported: the owner is well formed and
  unknown to the user store (first input) or malformed (second input), the addon id is
  malformed, and the constructor of line 46 throws before either owner check is
  reached; the promise is never settled. This is the defect of C5.
\<close>

theorem create_validation_failure_unreported:
  "ObjectId_new nobody = Some nobody_id \<and>
   user_get store nobody_id = user_array [] \<and>
   create store broken_addon ''post'' \<lparr>content = ''x'', owner = Some nobody\<rparr> (Some True) =
     (Thrown BSONTypeError, []) \<and>
   \<not> ObjectId_isValid ''also-bad'' \<and>
   create store broken_addon ''post'' \<lparr>content = ''x'', owner = Some ''also-bad''\<rparr> None =
     (Thrown BSONTypeError, [])"
proof -
  have "ObjectId_new nobody = Some nobody_id"
    by code_simp
  moreover have "user_get store nobody_id = user_array []"
    by code_simp
  moreover have
    "create store broken_addon ''post'' \<lparr>content = ''x'', owner = Some nobody\<rparr> (Some True) =
     (Thrown BSONTypeError, [])"
    by code_simp
  moreover have "\<not> ObjectId_isValid ''also-bad''"
    by code_simp
  moreover have
    "create store broken_addon ''post'' \<lparr>content = ''x'', owner = Some ''also-bad''\<rparr> None =
     (Thrown BSONTypeError, [])"
    by code_simp
  ultimately show ?thesis
    by simp
qed

end
